theory Spec2Isabelle
  imports Complex_Main
begin

section \<open>Numeric values\<close>

text \<open>
  The arrays of \<open>nca.py\<close> hold double-precision floats. A float is modelled as a real
  number or one of the three special values, with the IEEE rules for them. An operation
  on finite values whose exact result lies at or beyond the overflow threshold of the
  format gives an infinity, as it does in the program; below the threshold the exact
  result is kept, so rounding and underflow are not modelled.
\<close>

datatype xfloat = Fin real | PInf | NInf | NaN

definition OVF :: real where
  \<comment> \<open>the least magnitude that rounds to an infinity: the largest double plus half a unit
      in its last place\<close>
  "OVF = 2 ^ 1024 - 2 ^ 970"

definition fl :: "real \<Rightarrow> xfloat" where
  "fl r = (if OVF \<le> r then PInf else if r \<le> - OVF then NInf else Fin r)"

fun xneg :: "xfloat \<Rightarrow> xfloat" where
  "xneg (Fin r) = Fin (- r)"
| "xneg PInf = NInf"
| "xneg NInf = PInf"
| "xneg NaN = NaN"

fun xadd :: "xfloat \<Rightarrow> xfloat \<Rightarrow> xfloat" where
  "xadd (Fin a) (Fin b) = fl (a + b)"
| "xadd NaN _ = NaN"
| "xadd _ NaN = NaN"
| "xadd PInf NInf = NaN"
| "xadd NInf PInf = NaN"
| "xadd PInf _ = PInf"
| "xadd _ PInf = PInf"
| "xadd NInf _ = NInf"
| "xadd _ NInf = NInf"

definition xsub :: "xfloat \<Rightarrow> xfloat \<Rightarrow> xfloat" where
  "xsub a b = xadd a (xneg b)"

definition xsign :: "real \<Rightarrow> xfloat \<Rightarrow> xfloat" where
  \<comment> \<open>an infinity multiplied by a finite factor\<close>
  "xsign r v = (if r = 0 then NaN else if 0 < r then v else xneg v)"

fun xmul :: "xfloat \<Rightarrow> xfloat \<Rightarrow> xfloat" where
  "xmul (Fin a) (Fin b) = fl (a * b)"
| "xmul NaN _ = NaN"
| "xmul _ NaN = NaN"
| "xmul (Fin a) v = xsign a v"
| "xmul v (Fin b) = xsign b v"
| "xmul PInf v = v"
| "xmul NInf v = xneg v"

fun xrecip :: "xfloat \<Rightarrow> xfloat" where
  \<comment> \<open>\<open>1. / v\<close>; numpy divides by zero with a warning, not an exception\<close>
  "xrecip (Fin r) = (if r = 0 then PInf else fl (1 / r))"
| "xrecip PInf = Fin 0"
| "xrecip NInf = Fin 0"
| "xrecip NaN = NaN"

fun xexp :: "xfloat \<Rightarrow> xfloat" where
  "xexp (Fin r) = fl (exp r)"
| "xexp PInf = PInf"
| "xexp NInf = Fin 0"
| "xexp NaN = NaN"

fun xlog :: "xfloat \<Rightarrow> xfloat" where
  "xlog (Fin r) = (if 0 < r then fl (ln r) else if r = 0 then NInf else NaN)"
| "xlog PInf = PInf"
| "xlog NInf = NaN"
| "xlog NaN = NaN"

fun xmax :: "xfloat \<Rightarrow> xfloat \<Rightarrow> xfloat" where
  "xmax (Fin a) (Fin b) = Fin (max a b)"
| "xmax NaN _ = NaN"
| "xmax _ NaN = NaN"
| "xmax PInf _ = PInf"
| "xmax _ PInf = PInf"
| "xmax NInf v = v"
| "xmax v NInf = v"

fun xmin :: "xfloat \<Rightarrow> xfloat \<Rightarrow> xfloat" where
  "xmin (Fin a) (Fin b) = Fin (min a b)"
| "xmin NaN _ = NaN"
| "xmin _ NaN = NaN"
| "xmin NInf _ = NInf"
| "xmin _ NInf = NInf"
| "xmin PInf v = v"
| "xmin v PInf = v"

fun isfinite :: "xfloat \<Rightarrow> bool" where
  "isfinite (Fin _) = True"
| "isfinite _ = False"

text \<open>
  \<open>ndarray.sum\<close> and \<open>np.amax\<close> over one axis. The sum accumulates from the left; the
  order in which numpy and the linear-algebra library add is not fixed by them.
\<close>

definition xsum :: "xfloat list \<Rightarrow> xfloat" where
  "xsum vs = foldl xadd (Fin 0) vs"

fun xamax :: "xfloat list \<Rightarrow> xfloat" where
  "xamax [] = NInf"
| "xamax [v] = v"
| "xamax (v # vs) = xmax v (xamax vs)"

section \<open>Arrays\<close>

text \<open>
  A two-dimensional array is the list of its rows, all of one length; a one-dimensional
  array is a list. An array without rows does not record its number of columns;
  every function below that receives one raises, as the code does for each such shape.
\<close>

datatype error = ValueError

definition shape1 :: "'a list list \<Rightarrow> nat" where
  "shape1 X = (case X of [] \<Rightarrow> 0 | r # _ \<Rightarrow> length r)"

definition is_matrix :: "nat \<Rightarrow> nat \<Rightarrow> 'a list list \<Rightarrow> bool" where
  "is_matrix r c M \<longleftrightarrow> length M = r \<and> list_all (\<lambda>row. length row = c) M"

definition all_finite :: "xfloat list list \<Rightarrow> bool" where
  "all_finite M \<longleftrightarrow> list_all (list_all isfinite) M"

definition reshape_rows :: "nat \<Rightarrow> 'a list \<Rightarrow> error + 'a list list" where
  \<comment> \<open>\<open>a.reshape(-1, d)\<close>: the row count is inferred; impossible for \<open>d = 0\<close>\<close>
  "reshape_rows d a =
     (if 0 < d \<and> length a mod d = 0
      then Inr (map (\<lambda>i. take d (drop (i * d) a)) [0..<length a div d])
      else Inl ValueError)"

definition transp :: "nat \<Rightarrow> 'a list list \<Rightarrow> 'a list list" where
  \<comment> \<open>\<open>M.T\<close> for \<open>M\<close> with \<open>c\<close> columns\<close>
  "transp c M = map (\<lambda>j. map (\<lambda>row. row ! j) M) [0..<c]"

definition inner :: "xfloat list \<Rightarrow> xfloat list \<Rightarrow> xfloat" where
  "inner u v = xsum (map2 xmul u v)"

definition dot_T :: "xfloat list list \<Rightarrow> xfloat list list \<Rightarrow> xfloat list list" where
  \<comment> \<open>\<open>np.dot(X, A.T)\<close>: entry \<open>(i, c)\<close> is the inner product of row \<open>i\<close> of \<open>X\<close> and row \<open>c\<close> of \<open>A\<close>\<close>
  "dot_T X A = map (\<lambda>x. map (\<lambda>r. inner x r) A) X"

definition xdot :: "xfloat list list \<Rightarrow> nat \<Rightarrow> xfloat list list \<Rightarrow> xfloat list list" where
  \<comment> \<open>\<open>A.dot(B)\<close> for \<open>B\<close> with \<open>c\<close> columns\<close>
  "xdot A c B = map (\<lambda>r. map (\<lambda>col. inner r col) (transp c B)) A"

definition fill_diagonal :: "'a \<Rightarrow> 'a list list \<Rightarrow> 'a list list" where
  \<comment> \<open>\<open>np.fill_diagonal(M, v)\<close> with a scalar \<open>v\<close>\<close>
  "fill_diagonal v M = map (\<lambda>i. (M ! i)[i := v]) [0..<length M]"

definition fill_diagonal_vec :: "'a list \<Rightarrow> 'a list list \<Rightarrow> 'a list list" where
  \<comment> \<open>\<open>np.fill_diagonal(M, vals)\<close> with one value per column\<close>
  "fill_diagonal_vec vals M = map (\<lambda>i. (M ! i)[i := vals ! i]) [0..<length M]"

definition pairwise_distances :: "xfloat list list \<Rightarrow> error + xfloat list list" where
  \<comment> \<open>\<open>sklearn.metrics.pairwise_distances(Y, squared=True)\<close>. Its input check wants at
      least one sample, at least one feature and finite entries. The distances are
      \<open>-2 Y Y\<^sup>T\<close> plus the squared row norms along both axes, cut off below at 0, with a
      zero diagonal.\<close>
  "pairwise_distances Y =
     (if Y = [] \<or> shape1 Y = 0 then Inl ValueError
      else if all_finite Y
      then Inr (let XX = map (\<lambda>y. inner y y) Y;
                    distances =
                      map (\<lambda>i. map (\<lambda>j.
                            xmax (xadd (xadd (xmul (inner (Y ! i) (Y ! j)) (Fin (- 2))) (XX ! i))
                                    (XX ! j))
                              (Fin 0))
                          [0..<length Y]) [0..<length Y]
                in fill_diagonal (Fin 0) distances)
      else Inl ValueError)"

definition logsumexp :: "xfloat list \<Rightarrow> xfloat" where
  \<comment> \<open>\<open>scipy\<close>'s \<open>logsumexp\<close> on one row: shift by the row maximum (by 0 when that is not
      finite), exponentiate, sum, take the logarithm, shift back\<close>
  "logsumexp a =
     (let a_max0 = xamax a;
          a_max = (if isfinite a_max0 then a_max0 else Fin 0);
          tmp = map (\<lambda>v. xexp (xsub v a_max)) a;
          s = xsum tmp
      in xadd (xlog s) a_max)"

definition can_stretch :: "nat \<Rightarrow> 'a list \<Rightarrow> bool" where
  \<comment> \<open>broadcasting one axis to length \<open>n\<close> is possible from length \<open>n\<close> or 1\<close>
  "can_stretch n xs \<longleftrightarrow> length xs = n \<or> length xs = 1"

definition stretch :: "nat \<Rightarrow> 'a list \<Rightarrow> 'a list" where
  "stretch n xs = (if length xs = n then xs else replicate n (hd xs))"

definition broadcast_to :: "nat \<Rightarrow> 'a list list \<Rightarrow> error + 'a list list" where
  \<comment> \<open>a two-dimensional operand of an elementwise operation with an \<open>n \<times> n\<close> array.
      For \<open>n = 1\<close> the product itself takes the shape of the operand, and a later
      \<open>dot\<close> raises the same exception unless that shape is \<open>1 \<times> 1\<close>.\<close>
  "broadcast_to n M =
     (if can_stretch n M \<and> list_all (can_stretch n) M
      then Inr (map (stretch n) (stretch n M))
      else Inl ValueError)"

section \<open>The estimator object and its output\<close>

text \<open>
  The object as it is from line 123 of \<open>fit\<close> on, when the counter exists; the
  constructor does not create it.
\<close>

record nca =
  num_dims :: "nat option"
  max_iter :: nat
  tol :: "real option"
  verbose :: bool
  n_iter :: int
  transformer :: "xfloat list list option"

text \<open>
  What the code prints or warns, in order. The elapsed times that the lines carry are
  read from the clock and are left out. Every function below returns what it has
  printed together with its outcome, an exception included.
\<close>

datatype event =
    Header
  | Values int xfloat
  | ConvergenceWarning string
  | TrainingTook

section \<open>The objective evaluator\<close>

definition softmax_distances :: "xfloat list list \<Rightarrow> error + xfloat list list" where
  \<comment> \<open>lines 160 to 162: squared distances, infinite diagonal, row-wise softmax of the negation\<close>
  "softmax_distances X_embedded =
     (case pairwise_distances X_embedded of
        Inl e \<Rightarrow> Inl e
      | Inr D \<Rightarrow>
          Inr (let p_ij0 = fill_diagonal PInf D;
                   neg_p = map (map xneg) p_ij0
               in map2 (\<lambda>row l. map (\<lambda>v. xexp (xsub v l)) row) neg_p (map logsumexp neg_p)))"

definition weighted_sym ::
  "nat \<Rightarrow> xfloat list list \<Rightarrow> xfloat list list \<Rightarrow> xfloat list \<Rightarrow> xfloat list list" where
  \<comment> \<open>lines 171 to 173, for \<open>n\<close> samples\<close>
  "weighted_sym n p_ij masked_p_ij p =
     (let weighted_p_ij =
            map2 (map2 xsub) masked_p_ij (map2 (\<lambda>row p_i. map (\<lambda>q. xmul q p_i) row) p_ij p);
          weighted_p_ij_sym = map2 (map2 xadd) weighted_p_ij (transp n weighted_p_ij)
      in fill_diagonal_vec (map xneg (map xsum (transp n weighted_p_ij))) weighted_p_ij_sym)"

definition loss_grad_lbfgs ::
  "nca \<Rightarrow> xfloat list \<Rightarrow> xfloat list list \<Rightarrow> bool list list \<Rightarrow> xfloat
     \<Rightarrow> event list \<times> (error + (nca \<times> xfloat \<times> xfloat list))" where
  "loss_grad_lbfgs self A X msk sign =
     (let out1 = (if n_iter self = 0 \<and> verbose self then [Header] else []) in
      case reshape_rows (shape1 X) A of
        Inl e \<Rightarrow> (out1, Inl e)
      | Inr A' \<Rightarrow>
         (let X_embedded = dot_T X A' in
          case softmax_distances X_embedded of
            Inl e \<Rightarrow> (out1, Inl e)
          | Inr p_ij \<Rightarrow>
             (case broadcast_to (length p_ij) msk of
                Inl e \<Rightarrow> (out1, Inl e)
              | Inr mask' \<Rightarrow>
                 (let masked_p_ij = map2 (map2 (\<lambda>q m. xmul q (Fin (of_bool m)))) p_ij mask';
                      p = map xsum masked_p_ij;
                      loss = xsum p;
                      weighted_p_ij_sym = weighted_sym (length X) p_ij masked_p_ij p;
                      gradient =
                        map (map (xmul (Fin 2)))
                          (xdot (xdot (transp (length A') X_embedded) (length X) weighted_p_ij_sym)
                             (shape1 X) X);
                      out2 = (if verbose self then [Values (n_iter self) loss] else [])
                  in (out1 @ out2,
                      Inr (self\<lparr>n_iter := n_iter self + 1\<rparr>,
                           xmul sign loss, map (xmul sign) (concat gradient)))))))"

section \<open>Fitting\<close>

definition EPS :: real where
  \<comment> \<open>\<open>np.finfo(float).eps\<close>: the gap between 1.0 and the next double\<close>
  "EPS = 1 / 2 ^ 52"

definition amax_axis0 :: "xfloat list list \<Rightarrow> error + xfloat list" where
  \<comment> \<open>\<open>X.max(axis=0)\<close>; a reduction over no rows raises\<close>
  "amax_axis0 X =
     (case X of [] \<Rightarrow> Inl ValueError
      | r # rs \<Rightarrow> Inr (map (\<lambda>j. foldl xmax (r ! j) (map (\<lambda>row. row ! j) rs)) [0..<length r]))"

definition amin_axis0 :: "xfloat list list \<Rightarrow> error + xfloat list" where
  \<comment> \<open>\<open>X.min(axis=0)\<close>\<close>
  "amin_axis0 X =
     (case X of [] \<Rightarrow> Inl ValueError
      | r # rs \<Rightarrow> Inr (map (\<lambda>j. foldl xmin (r ! j) (map (\<lambda>row. row ! j) rs)) [0..<length r]))"

definition initial_transform :: "xfloat list list \<Rightarrow> nat \<Rightarrow> error + xfloat list list" where
  \<comment> \<open>lines 108 and 109: a zero matrix whose diagonal holds the reciprocal feature ranges\<close>
  "initial_transform X k =
     (let A = replicate k (replicate (shape1 X) (Fin 0)) in
      case amax_axis0 X of
        Inl e \<Rightarrow> Inl e
      | Inr mx \<Rightarrow>
         (case amin_axis0 X of
            Inl e \<Rightarrow> Inl e
          | Inr mn \<Rightarrow>
              Inr (fill_diagonal_vec
                     (map2 (\<lambda>hi lo. xrecip (xmax (xsub hi lo) (Fin EPS))) mx mn) A)))"

definition prepare_inputs ::
  "xfloat list list \<Rightarrow> int list \<Rightarrow> nat \<Rightarrow> error + (xfloat list list \<times> int list)" where
  \<comment> \<open>Modelled from the spec: \<open>_prepare_inputs\<close> is inherited from \<open>base_metric.py\<close>, which is
      not among the sources. The spec gives it as the validation that enforces a minimum
      number of samples and consistent shapes of a finite numeric matrix with \<open>n\<close> samples
      and \<open>d\<close> features and a label vector of length \<open>n\<close>, failing before the optimisation
      starts.\<close>
  "prepare_inputs X y ensure_min_samples =
     (if ensure_min_samples \<le> length X \<and> 0 < shape1 X
         \<and> is_matrix (length X) (shape1 X) X \<and> all_finite X \<and> length y = length X
      then Inr (X, y) else Inl ValueError)"

record opt_result =
  opt_x :: "xfloat list"
  opt_nit :: int
  opt_success :: bool
  opt_message :: string

text \<open>
  \<open>scipy.optimize.minimize\<close> is not part of the program. Whatever it does, it is seen from
  \<open>fit\<close> as a strategy: it either returns its result, or asks for the objective at a point
  and goes on from the answer. An exception of the objective passes through it.
\<close>

datatype optimizer =
    Return opt_result
  | Eval "xfloat list" "xfloat \<times> xfloat list \<Rightarrow> optimizer"

primrec run_optimizer ::
  "optimizer \<Rightarrow> nca \<Rightarrow> xfloat list list \<Rightarrow> bool list list \<Rightarrow> xfloat
     \<Rightarrow> event list \<times> (error + (nca \<times> opt_result))" where
  "run_optimizer (Return r) self X msk sign = ([], Inr (self, r))"
| "run_optimizer (Eval a k) self X msk sign =
     (case loss_grad_lbfgs self a X msk sign of
        (out, Inl e) \<Rightarrow> (out, Inl e)
      | (out, Inr (self', loss, grad)) \<Rightarrow>
         (case run_optimizer (k (loss, grad)) self' X msk sign of
            (out', res) \<Rightarrow> (out @ out', res)))"

definition same_class_mask :: "int list \<Rightarrow> bool list list" where
  \<comment> \<open>line 112\<close>
  "same_class_mask labels = map (\<lambda>a. map (\<lambda>b. a = b) labels) labels"

definition fit ::
  "(xfloat list \<Rightarrow> nat \<Rightarrow> real option \<Rightarrow> optimizer) \<Rightarrow> nca \<Rightarrow> xfloat list list \<Rightarrow> int list
     \<Rightarrow> event list \<times> (error + nca)" where
  "fit minimize self X0 y =
     (case prepare_inputs X0 y 2 of
        Inl e \<Rightarrow> ([], Inl e)
      | Inr (X, labels) \<Rightarrow>
         (let d = shape1 X;
              k = (case num_dims self of None \<Rightarrow> d | Some k' \<Rightarrow> k') in
          case initial_transform X k of
            Inl e \<Rightarrow> ([], Inl e)
          | Inr A \<Rightarrow>
             (let msk = same_class_mask labels;
                  self1 = self\<lparr>n_iter := 0\<rparr> in
              case run_optimizer (minimize (concat A) (max_iter self) (tol self))
                     self1 X msk (Fin (- 1)) of
                (out, Inl e) \<Rightarrow> (out, Inl e)
              | (out, Inr (self2, opt_result)) \<Rightarrow>
                 (case reshape_rows (shape1 X) (opt_x opt_result) of
                    Inl e \<Rightarrow> (out, Inl e)
                  | Inr T \<Rightarrow>
                     (let self3 = self2\<lparr>transformer := Some T\<rparr>;
                          self4 = self3\<lparr>n_iter := opt_nit opt_result\<rparr>;
                          out' =
                            (if verbose self4
                             then (if opt_success opt_result then []
                                   else [ConvergenceWarning (opt_message opt_result)])
                                  @ [TrainingTook]
                             else [])
                      in (out @ out', Inr self4))))))"



section \<open>Concrete inputs\<close>

definition nca0 :: nca where
  \<comment> \<open>an estimator with the default parameters, at line 123 of \<open>fit\<close>: the counter has just
      been set to 0 and no transformation is stored yet\<close>
  "nca0 = \<lparr>num_dims = None, max_iter = 100, tol = None, verbose = False, n_iter = 0,
            transformer = None\<rparr>"

definition one_call :: "bool \<Rightarrow> xfloat list \<Rightarrow> nat \<Rightarrow> real option \<Rightarrow> optimizer" where
  \<comment> \<open>an optimizer that evaluates the objective at the starting point and stops there
      without having completed an iteration, reporting success or not\<close>
  "one_call ok x0 maxiter tolerance =
     Eval x0 (\<lambda>v. Return \<lparr>opt_x = x0, opt_nit = 0, opt_success = ok, opt_message = ''STOP''\<rparr>)"

section \<open>Auxiliary notions\<close>

definition finite_embedding :: "xfloat list \<Rightarrow> xfloat list list \<Rightarrow> bool" where
  "finite_embedding a X \<longleftrightarrow>
     (case reshape_rows (shape1 X) a of Inl e \<Rightarrow> False | Inr L \<Rightarrow> all_finite (dot_T X L))"

definition huge :: real where
  "huge = 2 ^ 1023"

definition tab :: "nat \<Rightarrow> nat \<Rightarrow> (nat \<Rightarrow> nat \<Rightarrow> 'a) \<Rightarrow> 'a list list" where
  \<comment> \<open>the array of \<open>r\<close> rows and \<open>c\<close> columns with entry \<open>f i j\<close> at \<open>(i, j)\<close>\<close>
  "tab r c f = map (\<lambda>i. map (f i) [0..<c]) [0..<r]"

fun real_of :: "xfloat \<Rightarrow> real" where
  "real_of (Fin r) = r"
| "real_of _ = 0"

definition feature_range :: "xfloat list list \<Rightarrow> nat \<Rightarrow> xfloat" where
  \<comment> \<open>the spec's \<open>range_j = max(X[:,j]) - min(X[:,j])\<close> for finite data, the difference
      being one float subtraction\<close>
  "feature_range X j =
     fl (Max (set (map (\<lambda>row. real_of (row ! j)) X)) - Min (set (map (\<lambda>row. real_of (row ! j)) X)))"

definition initial_entry :: "real \<Rightarrow> xfloat list list \<Rightarrow> nat \<Rightarrow> nat \<Rightarrow> xfloat" where
  \<comment> \<open>the spec's \<open>L\<^sub>0[i][j]\<close> with the floor constant \<open>eps\<close>\<close>
  "initial_entry eps X i j =
     (if i = j then xrecip (xmax (feature_range X j) (Fin eps)) else Fin 0)"

definition smallest_subnormal :: real where
  \<comment> \<open>the smallest positive double\<close>
  "smallest_subnormal = 1 / 2 ^ 1074"

definition smallest_normal :: real where
  \<comment> \<open>the smallest positive normal double, \<open>np.finfo(float).tiny\<close>\<close>
  "smallest_normal = 1 / 2 ^ 1022"

lemma OVF_pos: "0 < OVF"
  by (simp add: OVF_def)

lemma OVF_big: "2 ^ 1023 + 2 ^ 64 < OVF"
  by (simp add: OVF_def)

lemma fl_Fin: "\<bar>r\<bar> < OVF \<Longrightarrow> fl r = Fin r"
  by (auto simp: fl_def)

lemma fl_zero: "fl 0 = Fin 0"
  using OVF_pos by (simp add: fl_def)

lemma is_matrix_nth: "is_matrix r c M \<Longrightarrow> i < r \<Longrightarrow> length (M ! i) = c"
  by (auto simp: is_matrix_def list_all_length)

lemma is_matrix_length: "is_matrix r c M \<Longrightarrow> length M = r"
  by (simp add: is_matrix_def)

lemma is_matrix_shape1: "is_matrix r c M \<Longrightarrow> 0 < r \<Longrightarrow> shape1 M = c"
  by (cases M) (auto simp: is_matrix_def shape1_def)

lemma is_matrixI: "length M = r \<Longrightarrow> (\<And>i. i < r \<Longrightarrow> length (M ! i) = c) \<Longrightarrow> is_matrix r c M"
  by (auto simp: is_matrix_def list_all_length)

lemma reshape_row_length:
  assumes "0 < d" "length a mod d = 0" "i < length a div d"
  shows "length (take d (drop (i * d) a)) = d"
proof -
  have "Suc i * d \<le> (length a div d) * d" using assms(3) by (intro mult_le_mono1) simp
  also have "\<dots> \<le> length a" by simp
  finally show ?thesis by simp
qed

lemma reshape_rows_Inr:
  assumes "0 < d" "length a mod d = 0"
  shows "\<exists>A'. reshape_rows d a = Inr A' \<and> is_matrix (length a div d) d A'"
proof -
  have "is_matrix (length a div d) d (map (\<lambda>i. take d (drop (i * d) a)) [0..<length a div d])"
    using reshape_row_length[OF assms] by (intro is_matrixI) (simp_all del: length_take length_drop)
  then show ?thesis using assms by (simp add: reshape_rows_def)
qed

lemma reshape_rows_Inl: "reshape_rows d a = Inl e \<longleftrightarrow> \<not> (0 < d \<and> length a mod d = 0)"
  by (cases e) (auto simp: reshape_rows_def)

lemma dot_T_matrix: "is_matrix (length X) (length A) (dot_T X A)"
  by (auto simp: dot_T_def intro!: is_matrixI)

lemma softmax_distances_Inl:
  assumes "is_matrix n k Y"
  shows "softmax_distances Y = Inl e \<longleftrightarrow> n = 0 \<or> k = 0 \<or> \<not> all_finite Y"
proof (cases "n = 0")
  case True
  then show ?thesis using assms
    by (cases e) (auto simp: softmax_distances_def pairwise_distances_def is_matrix_def)
next
  case False
  then have "shape1 Y = k" "Y \<noteq> []"
    using assms is_matrix_shape1[OF assms] by (auto simp: is_matrix_def)
  then show ?thesis using False
    by (cases e) (auto simp: softmax_distances_def pairwise_distances_def)
qed

lemma softmax_distances_matrix:
  assumes "softmax_distances Y = Inr P"
  shows "is_matrix (length Y) (length Y) P"
  using assms
  by (auto simp: softmax_distances_def pairwise_distances_def fill_diagonal_def Let_def
      split: if_splits intro!: is_matrixI)

lemma can_stretch_all:
  assumes "is_matrix r c M"
  shows "list_all (can_stretch n) M \<longleftrightarrow> r = 0 \<or> c = n \<or> c = 1"
proof (cases M)
  case Nil
  then show ?thesis using assms by (auto simp: is_matrix_def)
next
  case (Cons row rows)
  then have "r \<noteq> 0" "list_all (\<lambda>row. length row = c) M" using assms by (auto simp: is_matrix_def)
  then show ?thesis using Cons by (auto simp: can_stretch_def list_all_iff)
qed

lemma broadcast_to_Inl:
  assumes "is_matrix r c M" "0 < n"
  shows "broadcast_to n M = Inl e \<longleftrightarrow> \<not> ((r = n \<or> r = 1) \<and> (c = n \<or> c = 1))"
proof -
  have "can_stretch n M \<longleftrightarrow> r = n \<or> r = 1" using assms by (auto simp: can_stretch_def is_matrix_def)
  then show ?thesis using can_stretch_all[OF assms(1), of n] assms(2)
    by (cases e) (auto simp: broadcast_to_def)
qed

lemma length_stretch: "can_stretch n xs \<Longrightarrow> length (stretch n xs) = n"
  by (auto simp: stretch_def can_stretch_def)

lemma set_stretch: "can_stretch n xs \<Longrightarrow> set (stretch n xs) \<subseteq> set xs"
  by (cases xs) (auto simp: stretch_def can_stretch_def)

lemma broadcast_to_matrix:
  assumes "broadcast_to n M = Inr M'"
  shows "is_matrix n n M'"
proof -
  from assms have c: "can_stretch n M" "list_all (can_stretch n) M" and M': "M' = map (stretch n) (stretch n M)"
    by (auto simp: broadcast_to_def split: if_splits)
  have "list_all (can_stretch n) (stretch n M)"
    using c(2) set_stretch[OF c(1)] by (auto simp: list_all_iff)
  then show ?thesis using c(1)
    by (auto simp: M' is_matrix_def length_stretch list_all_iff)
qed

lemma loss_grad_lbfgs_raises_iff:
  assumes "is_matrix n d X" "0 < n" "0 < d" "is_matrix r c M"
  shows "snd (loss_grad_lbfgs self a X M s) = Inl ValueError
     \<longleftrightarrow> \<not> (length a mod d = 0 \<and> a \<noteq> [] \<and> finite_embedding a X
            \<and> (r = n \<or> r = 1) \<and> (c = n \<or> c = 1))"
proof (cases "length a mod d = 0")
  case False
  then show ?thesis using assms
    by (simp add: loss_grad_lbfgs_def is_matrix_shape1[OF assms(1,2)] reshape_rows_def)
next
  case True
  note sh = is_matrix_shape1[OF assms(1,2)]
  from reshape_rows_Inr[OF assms(3) True] obtain A' where
    A': "reshape_rows d a = Inr A'" "is_matrix (length a div d) d A'" by blast
  have lA: "length A' = length a div d" using A'(2) by (simp add: is_matrix_def)
  have Y: "is_matrix n (length a div d) (dot_T X A')"
    using dot_T_matrix[of X A'] assms(1) lA by (simp add: is_matrix_def)
  have k0: "length a div d = 0 \<longleftrightarrow> a = []"
    using True assms(3) by (auto simp: div_eq_0_iff dest: mod_less)
  have fe: "finite_embedding a X \<longleftrightarrow> all_finite (dot_T X A')"
    by (simp add: finite_embedding_def sh A')
  show ?thesis
  proof (cases "a \<noteq> [] \<and> all_finite (dot_T X A')")
    case False
    then have "softmax_distances (dot_T X A') = Inl ValueError"
      using softmax_distances_Inl[OF Y, of ValueError] k0 by auto
    then have "snd (loss_grad_lbfgs self a X M s) = Inl ValueError"
      by (simp add: loss_grad_lbfgs_def sh A' Let_def)
    then show ?thesis using False fe by auto
  next
    case ok: True
    then have "softmax_distances (dot_T X A') \<noteq> Inl ValueError"
      using softmax_distances_Inl[OF Y, of ValueError] k0 assms(2) by simp
    then obtain P where P: "softmax_distances (dot_T X A') = Inr P"
      by (cases "softmax_distances (dot_T X A')") (auto, metis error.exhaust)
    have lP: "length P = n" using softmax_distances_matrix[OF P] Y by (simp add: is_matrix_def)
    show ?thesis
    proof (cases "broadcast_to n M")
      case (Inl e)
      then have "snd (loss_grad_lbfgs self a X M s) = Inl ValueError"
        by (cases e) (simp add: loss_grad_lbfgs_def sh A' P lP Let_def)
      then show ?thesis using broadcast_to_Inl[OF assms(4,2), of e] Inl by simp
    next
      case (Inr M')
      then have "broadcast_to n M \<noteq> Inl ValueError" by simp
      then have "(r = n \<or> r = 1) \<and> (c = n \<or> c = 1)"
        using broadcast_to_Inl[OF assms(4,2), of ValueError] by blast
      moreover have "snd (loss_grad_lbfgs self a X M s) \<noteq> Inl ValueError"
        using Inr by (simp add: loss_grad_lbfgs_def sh A' P lP Let_def)
      ultimately show ?thesis using ok True fe by simp
    qed
  qed
qed

lemma fl_small: "\<bar>r\<bar> \<le> 4 \<Longrightarrow> fl r = Fin r"
proof -
  assume "\<bar>r\<bar> \<le> 4"
  moreover have "(4::real) < OVF" using OVF_big by simp
  ultimately show ?thesis by (intro fl_Fin) linarith
qed

lemmas eval_simps =
  shape1_def dot_T_def inner_def xsum_def all_finite_def fill_diagonal_def logsumexp_def xsub_def
  fl_small Let_def upt_rec[of 0] upt_rec[of 1] upt_rec[of 2]

lemma softmax_two_points:
  "softmax_distances [[Fin 0], [Fin 1]] = Inr [[Fin 0, Fin 1], [Fin 1, Fin 0]]"
  by (simp add: softmax_distances_def pairwise_distances_def eval_simps)

lemma eval_two_points_row_mask:
  "loss_grad_lbfgs self [Fin 1] [[Fin 0], [Fin 1]] [[True, True]] (Fin 1)
     = ((if n_iter self = 0 \<and> verbose self then [Header] else [])
          @ (if verbose self then [Values (n_iter self) (Fin 2)] else []),
        Inr (self\<lparr>n_iter := n_iter self + 1\<rparr>, Fin 2, [Fin 0]))"
  by (simp add: loss_grad_lbfgs_def reshape_rows_def softmax_two_points
      broadcast_to_def can_stretch_def stretch_def weighted_sym_def transp_def
      fill_diagonal_vec_def xdot_def eval_simps)

lemma xmul_huge: "xmul (Fin 2) (Fin huge) = PInf" "xmul (Fin 0) (Fin huge) = Fin 0"
  by (simp_all add: huge_def fl_def OVF_def)

lemma dot_T_overflow: "dot_T [[Fin 2], [Fin 0]] [[Fin huge]] = [[PInf], [Fin 0]]"
  unfolding dot_T_def inner_def xsum_def by (simp add: xmul_huge fl_zero del: xmul.simps)

lemma overflow_raises:
  "loss_grad_lbfgs self [Fin huge] [[Fin 2], [Fin 0]] [[True, False], [False, True]] (Fin 1)
     = ((if n_iter self = 0 \<and> verbose self then [Header] else []), Inl ValueError)"
  by (simp add: loss_grad_lbfgs_def reshape_rows_def shape1_def dot_T_overflow
      softmax_distances_def pairwise_distances_def all_finite_def)

section \<open>The claims about the evaluator's interface\<close>

text \<open>
  C4. The numeric outcome of the evaluator, an exception or the pair of objective and
  gradient, is the same for any two states of the estimator object: it depends on the
  explicit arguments only. The counter and the verbosity flag reach the printed lines
  and the stored counter, and nothing else.
\<close>

theorem loss_grad_lbfgs_deterministic:
  "map_sum id snd (snd (loss_grad_lbfgs self1 a X M s))
     = map_sum id snd (snd (loss_grad_lbfgs self2 a X M s))"
  by (simp add: loss_grad_lbfgs_def Let_def split: sum.splits)

theorem loss_grad_lbfgs_deterministic_witness:
  "map_sum id snd
     (snd (loss_grad_lbfgs nca0 [Fin 1] [[Fin 0], [Fin 1]] [[True, True]] (Fin 1)))
   = map_sum id snd
     (snd (loss_grad_lbfgs (nca0\<lparr>verbose := True, n_iter := 7\<rparr>)
        [Fin 1] [[Fin 0], [Fin 1]] [[True, True]] (Fin 1)))"
  by (rule loss_grad_lbfgs_deterministic)

text \<open>
  C8, as stated, fails: a mask of one row against two samples disagrees with the row
  count of \<open>X\<close>, and the evaluator returns, since the product with the mask broadcasts.
\<close>

theorem mask_row_broadcast_counterexample:
  "length [[True, True]] \<noteq> length [[Fin 0], [Fin 1]]
   \<and> loss_grad_lbfgs nca0 [Fin 1] [[Fin 0], [Fin 1]] [[True, True]] (Fin 1)
       = ([], Inr (nca0\<lparr>n_iter := 1\<rparr>, Fin 2, [Fin 0]))"
  by (simp add: eval_two_points_row_mask nca0_def)

text \<open>
  C8, amended. For data of \<open>n \<ge> 1\<close> rows and \<open>d \<ge> 1\<close> columns and a mask of \<open>r\<close>
  rows and \<open>c\<close> columns, the evaluator raises exactly when the length of \<open>a\<close> is not a
  multiple of \<open>d\<close>, or \<open>a\<close> is empty, or the embedding \<open>X L\<^sup>T\<close> has an entry that is not
  finite (the products and sums that form it overflow), or the mask cannot be broadcast
  to \<open>n \<times> n\<close> (one of its two dimensions is neither \<open>n\<close> nor 1).
\<close>

theorem loss_grad_lbfgs_raises:
  assumes "is_matrix n d X" "0 < n" "0 < d" "is_matrix r c M"
  shows "isl (snd (loss_grad_lbfgs self a X M s))
     \<longleftrightarrow> length a mod d \<noteq> 0 \<or> a = [] \<or> \<not> finite_embedding a X
          \<or> \<not> ((r = n \<or> r = 1) \<and> (c = n \<or> c = 1))"
proof -
  have "isl v \<longleftrightarrow> v = Inl ValueError" for v :: "error + (nca \<times> xfloat \<times> xfloat list)"
    by (cases v) (auto intro: error.exhaust)
  then show ?thesis
    using loss_grad_lbfgs_raises_iff[OF assms, of self a s] by auto
qed

theorem loss_grad_lbfgs_raises_witness:
  "is_matrix 2 1 [[Fin 0], [Fin 1]] \<and> is_matrix 1 2 [[True, True]]
   \<and> \<not> isl (snd (loss_grad_lbfgs nca0 [Fin 1] [[Fin 0], [Fin 1]] [[True, True]] (Fin 1)))
   \<and> is_matrix 2 2 [[True, False], [False, True]]
   \<and> isl (snd (loss_grad_lbfgs nca0 [] [[Fin 0], [Fin 1]] [[True, False], [False, True]] (Fin 1)))
   \<and> is_matrix 2 1 [[Fin 2], [Fin 0]]
   \<and> isl (snd (loss_grad_lbfgs nca0 [Fin huge] [[Fin 2], [Fin 0]]
               [[True, False], [False, True]] (Fin 1)))"
proof -
  have fe: "finite_embedding [Fin 1] [[Fin 0], [Fin 1]]"
    by (simp add: finite_embedding_def reshape_rows_def eval_simps)
  have nfe: "\<not> finite_embedding [Fin huge] [[Fin 2], [Fin 0]]"
    by (simp add: finite_embedding_def reshape_rows_def shape1_def dot_T_overflow all_finite_def)
  show ?thesis
    using loss_grad_lbfgs_raises[of 2 1 "[[Fin 0], [Fin 1]]" 1 2 "[[True, True]]" nca0 "[Fin 1]" "Fin 1"]
      loss_grad_lbfgs_raises[of 2 1 "[[Fin 0], [Fin 1]]" 2 2 "[[True, False], [False, True]]" nca0 "[]" "Fin 1"]
      loss_grad_lbfgs_raises[of 2 1 "[[Fin 2], [Fin 0]]" 2 2 "[[True, False], [False, True]]" nca0
        "[Fin huge]" "Fin 1"]
      fe nfe
    by (simp add: is_matrix_def)
qed

section \<open>The call counter\<close>

lemma loss_grad_lbfgs_Inr:
  assumes "snd (loss_grad_lbfgs self a X M s) = Inr (self', l, g)"
  shows "self' = self\<lparr>n_iter := n_iter self + 1\<rparr>"
  using assms by (auto simp: loss_grad_lbfgs_def Let_def split: sum.splits)




section \<open>Fitting two points on a line\<close>

lemma EPS_le_1: "EPS \<le> 1"
  by (simp add: EPS_def)

lemma EPS_pos: "0 < EPS"
  by (simp add: EPS_def)

lemma prepare_two_points:
  "prepare_inputs [[Fin 0], [Fin 1]] [0, 1] 2 = Inr ([[Fin 0], [Fin 1]], [0, 1])"
  by (simp add: prepare_inputs_def shape1_def is_matrix_def all_finite_def)

lemma initial_two_points: "initial_transform [[Fin 0], [Fin 1]] (Suc 0) = Inr [[Fin 1]]"
  using EPS_le_1
  by (simp add: initial_transform_def amax_axis0_def amin_axis0_def shape1_def
      fill_diagonal_vec_def xsub_def fl_small max_def)

lemma mask_two_points: "same_class_mask [0, 1] = [[True, False], [False, True]]"
  by (simp add: same_class_mask_def)

lemma eval_two_points_fit:
  "loss_grad_lbfgs self [Fin 1] [[Fin 0], [Fin 1]] [[True, False], [False, True]] (Fin (- 1))
     = ((if n_iter self = 0 \<and> verbose self then [Header] else [])
          @ (if verbose self then [Values (n_iter self) (Fin 0)] else []),
        Inr (self\<lparr>n_iter := n_iter self + 1\<rparr>, Fin 0, [Fin 0]))"
  by (simp add: loss_grad_lbfgs_def reshape_rows_def softmax_two_points
      broadcast_to_def can_stretch_def stretch_def weighted_sym_def transp_def
      fill_diagonal_vec_def xdot_def eval_simps)

lemma run_one_call:
  "run_optimizer (one_call ok [Fin 1] mi tolerance) self [[Fin 0], [Fin 1]]
      [[True, False], [False, True]] (Fin (- 1))
     = ((if n_iter self = 0 \<and> verbose self then [Header] else [])
          @ (if verbose self then [Values (n_iter self) (Fin 0)] else []),
        Inr (self\<lparr>n_iter := n_iter self + 1\<rparr>,
             \<lparr>opt_x = [Fin 1], opt_nit = 0, opt_success = ok, opt_message = ''STOP''\<rparr>))"
  by (simp add: one_call_def eval_two_points_fit)

lemma fit_one_call:
  "num_dims self = None \<Longrightarrow> fit (one_call ok) self [[Fin 0], [Fin 1]] [0, 1]
     = ((if verbose self then [Header, Values 0 (Fin 0)] else [])
          @ (if verbose self
             then (if ok then [] else [ConvergenceWarning ''STOP'']) @ [TrainingTook]
             else []),
        Inr (self\<lparr>n_iter := 0, transformer := Some [[Fin 1]]\<rparr>))"
  by (simp add: fit_def prepare_two_points initial_two_points mask_two_points run_one_call
      reshape_rows_def shape1_def upt_rec[of 0] upt_rec[of 1])


section \<open>The claims about fitting\<close>

lemma run_optimizer_state:
  "run_optimizer opt self X M s = (out, Inr (self2, r)) \<Longrightarrow> \<exists>c. self2 = self\<lparr>n_iter := c\<rparr>"
proof (induction opt arbitrary: self out)
  case (Return r')
  then have "self2 = self\<lparr>n_iter := n_iter self\<rparr>" by simp
  then show ?case by blast
next
  case (Eval a k)
  obtain out1 res where lg: "loss_grad_lbfgs self a X M s = (out1, res)"
    by (cases "loss_grad_lbfgs self a X M s") auto
  show ?case
  proof (cases res)
    case (Inl e)
    then show ?thesis using Eval.prems lg by simp
  next
    case (Inr v)
    obtain self' l g where v: "v = (self', l, g)" by (cases v) auto
    have s': "self' = self\<lparr>n_iter := n_iter self + 1\<rparr>"
      using loss_grad_lbfgs_Inr[of self a X M s self' l g] lg Inr v by simp
    obtain out2 where run2: "run_optimizer (k (l, g)) self' X M s = (out2, Inr (self2, r))"
      using Eval.prems lg Inr v by (auto split: prod.splits)
    have "\<exists>c. self2 = self'\<lparr>n_iter := c\<rparr>"
      by (rule Eval.IH[OF _ run2]) simp
    then obtain c where "self2 = self'\<lparr>n_iter := c\<rparr>" by blast
    then have "self2 = self\<lparr>n_iter := c\<rparr>" using s' by simp
    then show ?thesis by blast
  qed
qed

text \<open>
  C5, as stated, fails: with the default \<open>verbose = False\<close> an optimizer that reports no
  success leaves no warning; \<open>fit\<close> returns the model and nothing is surfaced.
\<close>

theorem silent_non_convergence_counterexample:
  "fit (one_call False) nca0 [[Fin 0], [Fin 1]] [0, 1]
     = ([], Inr (nca0\<lparr>n_iter := 0, transformer := Some [[Fin 1]]\<rparr>))"
  by (simp add: fit_one_call nca0_def)

text \<open>
  C5, amended. Whenever the optimizer finishes, the objective not having raised, with a
  result vector whose length is a multiple of the number of features, \<open>fit\<close> raises no
  exception and returns the model whose transformation is that vector in rows and whose
  counter is the optimizer's iteration count. It warns of non-convergence exactly when
  the optimizer signals no success and \<open>verbose\<close> is set; without \<open>verbose\<close> nothing is
  surfaced.
\<close>

theorem fit_after_optimizer:
  assumes "prepare_inputs X0 y 2 = Inr (X, labels)"
    and "initial_transform X (case num_dims self of None \<Rightarrow> shape1 X | Some k' \<Rightarrow> k') = Inr A"
    and "run_optimizer (minimize (concat A) (max_iter self) (tol self)) (self\<lparr>n_iter := 0\<rparr>) X
           (same_class_mask labels) (Fin (- 1)) = (out, Inr (self2, r))"
    and "length (opt_x r) mod shape1 X = 0"
  shows "\<exists>T. reshape_rows (shape1 X) (opt_x r) = Inr T
     \<and> fit minimize self X0 y
       = (out @ (if verbose self
                 then (if opt_success r then [] else [ConvergenceWarning (opt_message r)])
                      @ [TrainingTook]
                 else []),
          Inr (self2\<lparr>transformer := Some T, n_iter := opt_nit r\<rparr>))"
proof -
  have d: "0 < shape1 X"
    using assms(1) by (auto simp: prepare_inputs_def split: if_splits)
  then obtain T where T: "reshape_rows (shape1 X) (opt_x r) = Inr T"
    using assms(4) by (auto simp: reshape_rows_def)
  obtain c where "self2 = self\<lparr>n_iter := 0\<rparr>\<lparr>n_iter := c\<rparr>"
    using run_optimizer_state[OF assms(3)] by blast
  then have v: "verbose self2 = verbose self" by simp
  show ?thesis
    using assms(1,2,3) T v by (simp add: fit_def Let_def)
qed

theorem fit_after_optimizer_witness:
  "prepare_inputs [[Fin 0], [Fin 1]] [0, 1] 2 = Inr ([[Fin 0], [Fin 1]], [0, 1])
   \<and> fit (one_call False) (nca0\<lparr>verbose := True\<rparr>) [[Fin 0], [Fin 1]] [0, 1]
       = ([Header, Values 0 (Fin 0), ConvergenceWarning ''STOP'', TrainingTook],
          Inr (nca0\<lparr>verbose := True, transformer := Some [[Fin 1]]\<rparr>))"
proof -
  let ?self = "nca0\<lparr>verbose := True\<rparr>"
  let ?r = "\<lparr>opt_x = [Fin 1], opt_nit = 0, opt_success = False, opt_message = ''STOP''\<rparr>"
  have p: "prepare_inputs [[Fin 0], [Fin 1]] [0, 1] 2 = Inr ([[Fin 0], [Fin 1]], [0, 1])"
    by (rule prepare_two_points)
  have i: "initial_transform [[Fin 0], [Fin 1]]
             (case num_dims ?self of None \<Rightarrow> shape1 [[Fin 0], [Fin 1]] | Some k' \<Rightarrow> k')
           = Inr [[Fin 1]]"
    by (simp add: nca0_def shape1_def initial_two_points)
  have r: "run_optimizer (one_call False (concat [[Fin 1]]) (max_iter ?self) (tol ?self))
             (?self\<lparr>n_iter := 0\<rparr>) [[Fin 0], [Fin 1]] (same_class_mask [0, 1]) (Fin (- 1))
           = ([Header, Values 0 (Fin 0)], Inr (?self\<lparr>n_iter := 1\<rparr>, ?r))"
    by (simp add: run_one_call mask_two_points nca0_def)
  have m: "length (opt_x ?r) mod shape1 [[Fin 0], [Fin 1]] = 0"
    by (simp add: shape1_def)
  show ?thesis
    using fit_after_optimizer[where minimize = "one_call False", OF p i r m] p
    by (simp add: reshape_rows_def shape1_def nca0_def upt_rec[of 0] upt_rec[of 1])
qed




section \<open>The initial transformation\<close>

lemma foldl_xmax_Fin: "foldl xmax (Fin a) (map Fin bs) = Fin (Max (set (a # bs)))"
proof (induction bs arbitrary: a)
  case Nil
  then show ?case by simp
next
  case (Cons b bs)
  have "Max (set (max a b # bs)) = Max (set (a # b # bs))"
    by (cases "bs = []") (simp_all add: max.assoc)
  then show ?case using Cons[of "max a b"] by simp
qed

lemma foldl_xmin_Fin: "foldl xmin (Fin a) (map Fin bs) = Fin (Min (set (a # bs)))"
proof (induction bs arbitrary: a)
  case Nil
  then show ?case by simp
next
  case (Cons b bs)
  have "Min (set (min a b # bs)) = Min (set (a # b # bs))"
    by (cases "bs = []") (simp_all add: min.assoc)
  then show ?case using Cons[of "min a b"] by simp
qed

lemma isfinite_real_of: "isfinite v \<Longrightarrow> v = Fin (real_of v)"
  by (cases v) auto

lemma finite_column:
  assumes "is_matrix n d X" "all_finite X" "j < d"
  shows "map (\<lambda>row. row ! j) X = map Fin (map (\<lambda>row. real_of (row ! j)) X)"
proof -
  have "row ! j = Fin (real_of (row ! j))" if "row \<in> set X" for row
  proof -
    have "length row = d" "list_all isfinite row"
      using that assms(1,2) by (auto simp: is_matrix_def all_finite_def list_all_iff)
    then show ?thesis using assms(3) by (intro isfinite_real_of) (simp add: list_all_length)
  qed
  then show ?thesis by simp
qed

lemma amax_axis0_finite:
  assumes "is_matrix n d X" "0 < n" "all_finite X"
  shows "amax_axis0 X = Inr (map (\<lambda>j. Fin (Max (set (map (\<lambda>row. real_of (row ! j)) X)))) [0..<d])"
proof -
  obtain r rs where X: "X = r # rs" using assms(1,2) by (cases X) (auto simp: is_matrix_def)
  have d: "length r = d" using assms(1) X by (simp add: is_matrix_def)
  have "foldl xmax (r ! j) (map (\<lambda>row. row ! j) rs)
      = Fin (Max (set (map (\<lambda>row. real_of (row ! j)) X)))" if "j < d" for j
  proof -
    have "map (\<lambda>row. row ! j) (r # rs) = map Fin (map (\<lambda>row. real_of (row ! j)) (r # rs))"
      using finite_column[OF assms(1,3) that] X by simp
    then have "r ! j = Fin (real_of (r ! j))"
      and "map (\<lambda>row. row ! j) rs = map Fin (map (\<lambda>row. real_of (row ! j)) rs)"
      by simp_all
    then have "foldl xmax (r ! j) (map (\<lambda>row. row ! j) rs)
      = foldl xmax (Fin (real_of (r ! j))) (map Fin (map (\<lambda>row. real_of (row ! j)) rs))"
      by (rule arg_cong2[where f = "foldl xmax"])
    then show ?thesis unfolding foldl_xmax_Fin X by simp
  qed
  then show ?thesis by (simp add: amax_axis0_def X d)
qed

lemma amin_axis0_finite:
  assumes "is_matrix n d X" "0 < n" "all_finite X"
  shows "amin_axis0 X = Inr (map (\<lambda>j. Fin (Min (set (map (\<lambda>row. real_of (row ! j)) X)))) [0..<d])"
proof -
  obtain r rs where X: "X = r # rs" using assms(1,2) by (cases X) (auto simp: is_matrix_def)
  have d: "length r = d" using assms(1) X by (simp add: is_matrix_def)
  have "foldl xmin (r ! j) (map (\<lambda>row. row ! j) rs)
      = Fin (Min (set (map (\<lambda>row. real_of (row ! j)) X)))" if "j < d" for j
  proof -
    have "map (\<lambda>row. row ! j) (r # rs) = map Fin (map (\<lambda>row. real_of (row ! j)) (r # rs))"
      using finite_column[OF assms(1,3) that] X by simp
    then have "r ! j = Fin (real_of (r ! j))"
      and "map (\<lambda>row. row ! j) rs = map Fin (map (\<lambda>row. real_of (row ! j)) rs)"
      by simp_all
    then have "foldl xmin (r ! j) (map (\<lambda>row. row ! j) rs)
      = foldl xmin (Fin (real_of (r ! j))) (map Fin (map (\<lambda>row. real_of (row ! j)) rs))"
      by (rule arg_cong2[where f = "foldl xmin"])
    then show ?thesis unfolding foldl_xmin_Fin X by simp
  qed
  then show ?thesis by (simp add: amin_axis0_def X d)
qed

lemma map2_same: "map2 g (map f1 xs) (map f2 xs) = map (\<lambda>x. g (f1 x) (f2 x)) xs"
  by (induction xs) auto

lemma fill_diagonal_vec_zeros:
  "fill_diagonal_vec (map h [0..<d]) (replicate k (replicate d z))
     = tab k d (\<lambda>i j. if i = j then h j else z)"
  unfolding tab_def fill_diagonal_vec_def
  by (auto intro!: nth_equalityI simp: nth_list_update)

lemma initial_transform_eq:
  assumes "is_matrix n d X" "0 < n" "all_finite X"
  shows "initial_transform X k = Inr (tab k d (initial_entry EPS X))"
proof -
  have sh: "shape1 X = d" using assms(1,2) by (rule is_matrix_shape1)
  have "map2 (\<lambda>hi lo. xrecip (xmax (xsub hi lo) (Fin EPS)))
          (map (\<lambda>j. Fin (Max (set (map (\<lambda>row. real_of (row ! j)) X)))) [0..<d])
          (map (\<lambda>j. Fin (Min (set (map (\<lambda>row. real_of (row ! j)) X)))) [0..<d])
        = map (\<lambda>j. xrecip (xmax (feature_range X j) (Fin EPS))) [0..<d]"
    by (simp add: map2_same feature_range_def xsub_def)
  then have "initial_transform X k
      = Inr (tab k d (\<lambda>i j. if i = j then xrecip (xmax (feature_range X j) (Fin EPS)) else Fin 0))"
    by (simp add: initial_transform_def amax_axis0_finite[OF assms] amin_axis0_finite[OF assms]
        sh fill_diagonal_vec_zeros)
  also have "(\<lambda>i j. if i = j then xrecip (xmax (feature_range X j) (Fin EPS)) else Fin 0)
      = initial_entry EPS X"
    by (intro ext) (simp add: initial_entry_def)
  finally show ?thesis .
qed

lemma tab_nth: "i < r \<Longrightarrow> j < c \<Longrightarrow> tab r c f ! i ! j = f i j"
  by (simp add: tab_def)

lemma tab_row: "i < r \<Longrightarrow> tab r c f ! i = map (f i) [0..<c]"
  by (simp add: tab_def)

lemma length_tab: "length (tab r c f) = r"
  by (simp add: tab_def)

lemma tab_matrix: "is_matrix r c (tab r c f)"
  by (simp add: tab_def is_matrix_def list_all_iff)

lemma tab_cong: "(\<And>i j. i < r \<Longrightarrow> j < c \<Longrightarrow> f i j = g i j) \<Longrightarrow> tab r c f = tab r c g"
  by (simp add: tab_def)

lemma tab_all_finite: "(\<And>i j. i < r \<Longrightarrow> j < c \<Longrightarrow> isfinite (f i j)) \<Longrightarrow> all_finite (tab r c f)"
  by (simp add: tab_def all_finite_def list_all_iff)

lemma feature_range_cases:
  assumes "X \<noteq> []"
  shows "feature_range X j = PInf \<or> (\<exists>r\<ge>0. feature_range X j = Fin r)"
proof -
  define S where "S = set (map (\<lambda>row. real_of (row ! j)) X)"
  have fin: "finite S" and ne: "S \<noteq> {}" using assms by (simp_all add: S_def)
  from ne obtain x where x: "x \<in> S" by auto
  have "Min S \<le> x" "x \<le> Max S" using fin x by simp_all
  then have "0 \<le> Max S - Min S" by simp
  moreover have "- OVF < 0" using OVF_pos by simp
  ultimately show ?thesis unfolding feature_range_def fl_def S_def[symmetric] by auto
qed

lemma recip_floor_bound:
  assumes "0 \<le> r"
  shows "xrecip (xmax (Fin r) (Fin EPS)) = Fin (1 / max r EPS)"
proof -
  have m: "EPS \<le> max r EPS" by simp
  then have pos: "0 < max r EPS" using EPS_pos by linarith
  have "1 / max r EPS \<le> 1 / EPS" using m EPS_pos by (simp add: frac_le)
  also have "\<dots> = 2 ^ 52" by (simp add: EPS_def)
  also have "\<dots> < OVF" using OVF_big by simp
  finally have "\<bar>1 / max r EPS\<bar> < OVF" using pos by simp
  then show ?thesis using pos by (simp add: fl_Fin)
qed

lemma initial_entry_finite:
  assumes "X \<noteq> []"
  shows "isfinite (initial_entry EPS X i j)"
proof (cases "i = j")
  case False
  then show ?thesis by (simp add: initial_entry_def)
next
  case True
  from feature_range_cases[OF assms, of j] show ?thesis
  proof
    assume "feature_range X j = PInf"
    then show ?thesis using True by (simp add: initial_entry_def)
  next
    assume "\<exists>r\<ge>0. feature_range X j = Fin r"
    then obtain r where r: "0 \<le> r" "feature_range X j = Fin r" by blast
    show ?thesis
      using True recip_floor_bound[OF r(1)] unfolding initial_entry_def r(2) by simp
  qed
qed

section \<open>The claim about the initial transformation\<close>

text \<open>
  C7, as stated, fails on the floor constant. With a feature of zero variance the code
  stores \<open>2\<^sup>5\<^sup>2\<close>, the reciprocal of the machine epsilon; the reciprocal of the
  smallest positive double is not even finite, and that of the smallest normal double
  is \<open>2\<^sup>1\<^sup>0\<^sup>2\<^sup>2\<close>.
\<close>

theorem floor_constant_counterexample:
  "initial_transform [[Fin 0], [Fin 0]] 1 = Inr [[Fin (2 ^ 52)]]
   \<and> initial_entry smallest_subnormal [[Fin 0], [Fin 0]] 0 0 = PInf
   \<and> initial_entry smallest_normal [[Fin 0], [Fin 0]] 0 0 = Fin (2 ^ 1022)"
proof -
  have fr: "feature_range [[Fin 0], [Fin 0]] 0 = Fin 0"
    by (simp add: feature_range_def fl_zero)
  have 1: "initial_transform [[Fin 0], [Fin 0]] 1 = Inr [[Fin (2 ^ 52)]]"
    using initial_transform_eq[of 2 1 "[[Fin 0], [Fin 0]]" 1] recip_floor_bound[of 0] EPS_pos
    by (simp add: is_matrix_def all_finite_def tab_def initial_entry_def fr EPS_def)
  have 2: "initial_entry smallest_subnormal [[Fin 0], [Fin 0]] 0 0 = PInf"
    by (simp add: initial_entry_def fr smallest_subnormal_def fl_def OVF_def)
  have 3: "initial_entry smallest_normal [[Fin 0], [Fin 0]] 0 0 = Fin (2 ^ 1022)"
    by (simp add: initial_entry_def fr smallest_normal_def fl_def OVF_def)
  show ?thesis using 1 2 3 by blast
qed

text \<open>
  C7, amended. For every finite data matrix \<open>X\<close> of \<open>n \<ge> 1\<close> rows and \<open>d\<close> columns and
  every target dimension \<open>k\<close>, the initial transformation is the \<open>k \<times> d\<close> matrix that is
  zero everywhere except \<open>L\<^sub>0[j][j] = 1 / max(range\<^sub>j, \<epsilon>)\<close> for \<open>j < min(k, d)\<close>, where
  \<open>range\<^sub>j\<close> is the difference of the largest and the smallest value of column \<open>j\<close> and
  \<open>\<epsilon> = 2\<^sup>-\<^sup>5\<^sup>2\<close> is the machine epsilon of doubles. All its entries are finite; a column
  of zero variance yields \<open>1 / \<epsilon>\<close>.
\<close>

theorem initial_transform_entries:
  assumes "is_matrix n d X" "0 < n" "all_finite X"
  shows "\<exists>A. initial_transform X k = Inr A \<and> is_matrix k d A \<and> all_finite A
     \<and> (\<forall>i<k. \<forall>j<d. A ! i ! j
            = (if i = j then xrecip (xmax (feature_range X j) (Fin EPS)) else Fin 0))
     \<and> (\<forall>j<min k d. feature_range X j = Fin 0 \<longrightarrow> A ! j ! j = Fin (1 / EPS))"
proof -
  let ?A = "tab k d (initial_entry EPS X)"
  have ne: "X \<noteq> []" using assms(1,2) by (auto simp: is_matrix_def)
  have 1: "initial_transform X k = Inr ?A" by (rule initial_transform_eq[OF assms])
  have 2: "is_matrix k d ?A" by (rule tab_matrix)
  have 3: "all_finite ?A" by (rule tab_all_finite) (rule initial_entry_finite[OF ne])
  have 4: "\<forall>i<k. \<forall>j<d. ?A ! i ! j
            = (if i = j then xrecip (xmax (feature_range X j) (Fin EPS)) else Fin 0)"
    by (simp add: tab_nth initial_entry_def)
  have 5: "\<forall>j<min k d. feature_range X j = Fin 0 \<longrightarrow> ?A ! j ! j = Fin (1 / EPS)"
    using recip_floor_bound[of 0] EPS_pos by (simp add: tab_nth initial_entry_def max_def)
  show ?thesis using 1 2 3 4 5 by blast
qed

theorem initial_transform_entries_witness:
  "is_matrix 2 1 [[Fin 0], [Fin 0]] \<and> all_finite [[Fin 0], [Fin 0]]
   \<and> feature_range [[Fin 0], [Fin 0]] 0 = Fin 0
   \<and> (\<exists>A. initial_transform [[Fin 0], [Fin 0]] 1 = Inr A \<and> A ! 0 ! 0 = Fin (1 / EPS))"
proof -
  have fr: "feature_range [[Fin 0], [Fin 0]] 0 = Fin 0"
    by (simp add: feature_range_def fl_zero)
  have m: "is_matrix 2 1 [[Fin 0], [Fin 0]]" "all_finite [[Fin 0], [Fin 0]]"
    by (simp_all add: is_matrix_def all_finite_def)
  show ?thesis
    using initial_transform_entries[OF m(1) _ m(2), of 1] fr m by auto
qed

end
